theory Spec2Isabelle
  imports Main
begin

section \<open>Configuration types of the stack\<close>

text \<open>
  The option types of \<^verbatim>\<open>MinecraftCdkStack\<close>. An optional property \<^verbatim>\<open>x?: T\<close> is a field of
  type \<open>T option\<close>, with \<open>None\<close> for \<^verbatim>\<open>undefined\<close>.
\<close>

datatype Difficulty = peaceful | easy | normal | hard

text \<open>A \<^verbatim>\<open>Difficulty\<close> is the string of its tag.\<close>

fun Difficulty_str :: "Difficulty \<Rightarrow> string" where
  "Difficulty_str peaceful = ''peaceful''"
| "Difficulty_str easy = ''easy''"
| "Difficulty_str normal = ''normal''"
| "Difficulty_str hard = ''hard''"

record MinecraftServerOptions =
  version :: "string option"
  ops :: "string list option"
  difficulty :: "Difficulty option"
  mods :: "string list option"
  motd :: "string option"

record CustomDomainProps =
  hostedZoneId :: string
  domainName :: string

subsection \<open>What the stack uses of the provisioning library\<close>

text \<open>
  The classes of the provisioning library are not part of the repository. Each is a record
  of the properties that the stack passes to it or reads from it.
\<close>

datatype SubnetType = PUBLIC | PRIVATE | ISOLATED

record SubnetConfiguration =
  subnetType :: SubnetType
  subnetName :: string
  cidrMask :: nat

text \<open>A network is either one the caller made elsewhere or one made by \<^verbatim>\<open>new Vpc\<close>.\<close>

datatype IVpc =
    ImportedVpc string
  | Vpc_new string nat "SubnetConfiguration list"

datatype Port = tcp nat | icmpPing

datatype Peer = anyIpv4 | clusterPeer string

record IngressRule =
  peer :: Peer
  port :: Port
  description :: "string option"

text \<open>
  \<^verbatim>\<open>connections.allowFromAnyIpv4(port, description)\<close> adds one ingress rule to a connection
  boundary; the rules already there stay.
\<close>

definition allowFromAnyIpv4 :: "Port \<Rightarrow> string \<Rightarrow> IngressRule list \<Rightarrow> IngressRule list" where
  "allowFromAnyIpv4 p d conns = conns @ [\<lparr>peer = anyIpv4, port = p, description = Some d\<rparr>]"

text \<open>
  A capacity group. The bounds are the \<^verbatim>\<open>minCapacity\<close> and \<^verbatim>\<open>maxCapacity\<close> it was made
  with.
\<close>

record IAutoScalingGroup =
  autoScalingGroupName :: string
  asgInstanceType :: string
  asgSpotPrice :: "string option"
  asgKeyName :: "string option"
  minCapacity :: nat
  maxCapacity :: nat

record AddCapacityOptions =
  capInstanceType :: string
  capSpotPrice :: "string option"
  capKeyName :: "string option"
  capMinCapacity :: nat
  capMaxCapacity :: nat

text \<open>
  \<^verbatim>\<open>addCapacity\<close> of the library makes the capacity group from the options. The stack
  gives both bounds, so no default of the library is involved.
\<close>

definition addCapacity :: "string \<Rightarrow> AddCapacityOptions \<Rightarrow> IAutoScalingGroup" where
  "addCapacity ident opts =
     \<lparr>autoScalingGroupName = ident,
      asgInstanceType = capInstanceType opts,
      asgSpotPrice = capSpotPrice opts,
      asgKeyName = capKeyName opts,
      minCapacity = capMinCapacity opts,
      maxCapacity = capMaxCapacity opts\<rparr>"

text \<open>
  \<^verbatim>\<open>ICluster\<close>: \<^verbatim>\<open>hasEc2Capacity\<close> and the optional \<^verbatim>\<open>autoscalingGroup\<close> are two
  properties of the interface, and a cluster the caller supplies sets each on its own.
\<close>

record ICluster =
  clusterName :: string
  clusterVpc :: IVpc
  hasEc2Capacity :: bool
  autoscalingGroup :: "IAutoScalingGroup option"
  connections :: "IngressRule list"

text \<open>
  \<^verbatim>\<open>new Cluster(scope, id, {vpc, capacity})\<close>: the library adds the capacity as the default
  capacity group of the new cluster.
\<close>

definition Cluster_new :: "string \<Rightarrow> IVpc \<Rightarrow> AddCapacityOptions \<Rightarrow> ICluster" where
  "Cluster_new ident v capacity =
     \<lparr>clusterName = ident,
      clusterVpc = v,
      hasEc2Capacity = True,
      autoscalingGroup = Some (addCapacity ''DefaultAutoScalingGroup'' capacity),
      connections = []\<rparr>"

record ClusterOptions =
  instanceType :: string
  keyName :: "string option"
  spotPrice :: "string option"
  vpc :: "IVpc option"

record BackupPlanRule =
  ruleName :: string

record MinecraftCdkStackProps =
  imageTag :: "string option"
  cluster :: "ICluster option"
  clusterOptions :: "ClusterOptions option"
  serverOptions :: "MinecraftServerOptions option"
  plugins :: "string option"
  backup :: "BackupPlanRule option"
  rcon :: "bool option"
  memoryReservation :: "int option"
  customDomain :: "CustomDomainProps option"

record FileSystem =
  fsVpc :: IVpc
  lifecyclePolicy :: string
  fsConnections :: "IngressRule list"

record BackupPlan =
  backupPlanName :: string
  backupPlanRules :: "BackupPlanRule list"
  selections :: "string list list"

record Asset =
  assetPath :: string
  readers :: "string list"
  publicAccess :: bool

text \<open>The address of an asset is a value that the library fills in at deployment.\<close>

definition httpUrl :: "Asset \<Rightarrow> string" where
  "httpUrl a = ''${Token[ModpackAsset.HttpUrl]}''"

record SecretsManagerSecret =
  secretDescription :: string
  excludePunctuation :: bool

datatype Secret = fromSecretsManager SecretsManagerSecret

record MountPoint =
  containerPath :: string
  readOnly :: bool
  sourceVolume :: string

record PortMapping =
  containerPort :: nat
  hostPort :: nat

record ContainerDefinition =
  image :: string
  environment :: "string \<rightharpoonup> string"
  secrets :: "string \<rightharpoonup> Secret"
  memoryReservationMiB :: int
  mountPoints :: "MountPoint list"
  portMappings :: "PortMapping list"

record Ec2TaskDefinition =
  volumes :: "(string \<times> string) list"
  dependencies :: "string list"
  containers :: "string list"

record Ec2Service =
  serviceCluster :: ICluster
  minHealthyPercent :: nat
  maxHealthyPercent :: nat

text \<open>The resource name of a hosted zone, which the library builds from the zone's id.\<close>

definition hostedZoneArn :: "string \<Rightarrow> string" where
  "hostedZoneArn zoneId = ''arn:aws:route53:::hostedzone/'' @ zoneId"

record PolicyStatement =
  actions :: "string list"
  resources :: "string list"

record PythonFunction =
  functionEnvironment :: "string \<rightharpoonup> string"
  initialPolicy :: "PolicyStatement list"

record Rule =
  targets :: "string list"
  eventSource :: "string list"
  detailType :: "string list"
  detailAutoScalingGroupName :: "string list"

section \<open>The environment of the container\<close>

text \<open>
  \<^verbatim>\<open>Array.prototype.join\<close>: the loop of the language definition. The result starts empty;
  for each index \<open>k\<close> in turn the separator is appended when \<open>k > 0\<close>, then the element.
\<close>

fun join_loop :: "string \<Rightarrow> string list \<Rightarrow> nat \<Rightarrow> string \<Rightarrow> string" where
  "join_loop sep [] k R = R"
| "join_loop sep (x # xs) k R = join_loop sep xs (Suc k) ((if 0 < k then R @ sep else R) @ x)"

definition join :: "string list \<Rightarrow> string \<Rightarrow> string" where
  "join xs sep = join_loop sep xs 0 []"

text \<open>
  \<^verbatim>\<open>makeEnv(props?)\<close>. The method reads \<^verbatim>\<open>this.plugins\<close> and \<^verbatim>\<open>this.rconSecret\<close>, which
  are its first two arguments here. Each \<^verbatim>\<open>if (x)\<close> tests truthiness: an absent value is
  falsy, so is the empty string, and every array and every object is truthy. With no
  \<^verbatim>\<open>props\<close> the method returns the four fixed entries at once.
\<close>

definition makeEnv ::
  "Asset option \<Rightarrow> SecretsManagerSecret option \<Rightarrow> MinecraftServerOptions option
     \<Rightarrow> (string \<rightharpoonup> string)" where
  "makeEnv this_plugins this_rconSecret props =
     (let env = [''EULA'' \<mapsto> ''true'', ''TYPE'' \<mapsto> ''PAPER'',
                 ''OVERRIDE_SERVER_PROPERTIES'' \<mapsto> ''true'', ''FORCE_REDOWNLOAD'' \<mapsto> ''true'']
      in case props of
           None \<Rightarrow> env
         | Some p \<Rightarrow>
            (let env = (case version p of
                          Some v \<Rightarrow> if v \<noteq> [] then env(''VERSION'' \<mapsto> v) else env
                        | None \<Rightarrow> env);
                 env = (case difficulty p of
                          Some d \<Rightarrow> env(''DIFFICULTY'' \<mapsto> Difficulty_str d)
                        | None \<Rightarrow> env);
                 env = (case ops p of
                          Some xs \<Rightarrow> env(''OPS'' \<mapsto> join xs '','')
                        | None \<Rightarrow> env);
                 env = (case mods p of
                          Some xs \<Rightarrow> env(''MODS'' \<mapsto> join xs '','')
                        | None \<Rightarrow> env);
                 env = (case motd p of
                          Some m \<Rightarrow> if m \<noteq> [] then env(''MOTD'' \<mapsto> m) else env
                        | None \<Rightarrow> env);
                 env = (case this_plugins of
                          Some a \<Rightarrow> env(''MODPACK'' \<mapsto> httpUrl a)
                        | None \<Rightarrow> env);
                 env = (case this_rconSecret of
                          Some s \<Rightarrow> env(''ENABLE_RCON'' \<mapsto> ''true'')
                        | None \<Rightarrow> env)
             in env))"

text \<open>\<^verbatim>\<open>makeSecret()\<close>, with \<^verbatim>\<open>this.rconSecret\<close> as its argument.\<close>

definition makeSecret :: "SecretsManagerSecret option \<Rightarrow> (string \<rightharpoonup> Secret)" where
  "makeSecret this_rconSecret =
     (case this_rconSecret of
        Some s \<Rightarrow> [''RCON_PASSWORD'' \<mapsto> fromSecretsManager s]
      | None \<Rightarrow> Map.empty)"

section \<open>The constructor\<close>

text \<open>
  The class is modelled in the revision whose options are \<^verbatim>\<open>cluster\<close> and
  \<^verbatim>\<open>clusterOptions\<close>. The revision kept in \<^verbatim>\<open>lib/minecraft-cdk-stack.ts\<close> takes the
  instance type at the top of its options and always provisions the cluster, gives the
  capacity its maximum of 1 only, and gives the function of the custom domain the first of
  the two policy statements only; \<^verbatim>\<open>makeEnv\<close> and \<^verbatim>\<open>makeSecret\<close> are the same in both.
\<close>

text \<open>
  A \<^verbatim>\<open>throw\<close> leaves the constructor with an error. The two checks of the options throw
  a message; reading a property of \<^verbatim>\<open>undefined\<close> throws a \<^verbatim>\<open>TypeError\<close>.
\<close>

datatype error = ConfigurationError string | TypeError string

text \<open>
  The stack: the fields of \<^verbatim>\<open>this\<close>, the constructs that the constructor holds in local
  constants, and \<open>children\<close>, the identifiers of the constructs made in the scope of the
  stack, in the order of their creation.
\<close>

record MinecraftCdkStack =
  this_cluster :: ICluster
  this_vpc :: IVpc
  this_autoScaling :: "IAutoScalingGroup option"
  this_plugins :: "Asset option"
  this_rconSecret :: "SecretsManagerSecret option"
  fileSystem :: FileSystem
  backupPlan :: "BackupPlan option"
  taskDefinition :: Ec2TaskDefinition
  minecraftContainer :: ContainerDefinition
  service :: Ec2Service
  ruleFunction :: "PythonFunction option"
  domainRule :: "Rule option"
  children :: "string list"

text \<open>
  A constructor that throws returns the error together with the identifiers of the
  constructs made before the \<^verbatim>\<open>throw\<close>.
\<close>

type_synonym 'a build = "(error \<times> string list) + 'a"

text \<open>
  Lines 67 to 97: the cluster and the network, with the constructs made for them. With
  neither option the destructuring of \<^verbatim>\<open>props.clusterOptions!\<close> throws; the first check
  of the constructor keeps that case away.
\<close>

definition resolveCluster :: "MinecraftCdkStackProps \<Rightarrow> (ICluster \<times> IVpc \<times> string list) build" where
  "resolveCluster props =
     (case cluster props of
        Some c \<Rightarrow>
          if \<not> hasEc2Capacity c
          then Inl (ConfigurationError ''cluster must have ec2 capacity'', [])
          else Inr (c, clusterVpc c, [])
      | None \<Rightarrow>
         (case clusterOptions props of
            None \<Rightarrow> Inl (TypeError ''Cannot destructure property of undefined'', [])
          | Some co \<Rightarrow>
             (let (v, ch) =
                    (case vpc co of
                       Some v \<Rightarrow> (v, [])
                     | None \<Rightarrow>
                        (Vpc_new ''Vpc'' 2
                           [\<lparr>subnetType = PUBLIC, subnetName = ''Public'', cidrMask = 26\<rparr>],
                         [''Vpc'']));
                  cl = Cluster_new ''Cluster'' v
                         \<lparr>capInstanceType = instanceType co,
                          capSpotPrice = spotPrice co,
                          capKeyName = keyName co,
                          capMinCapacity = 0,
                          capMaxCapacity = 1\<rparr>
              in Inr (cl, v, ch @ [''Cluster'']))))"

text \<open>
  Lines 99 to 183, which do not throw. The non-null assertion of line 99 is erased when the
  class is compiled: \<^verbatim>\<open>this.autoScaling\<close> is the \<^verbatim>\<open>autoscalingGroup\<close> of the cluster,
  defined or not. \<^verbatim>\<open>if (props.plugins)\<close> is false for the empty string.
\<close>

definition assemble ::
  "MinecraftCdkStackProps \<Rightarrow> ICluster \<Rightarrow> IVpc \<Rightarrow> string list \<Rightarrow> MinecraftCdkStack" where
  "assemble props cl0 v ch0 =
     (let autoScaling = autoscalingGroup cl0;
          cl = cl0\<lparr>connections := allowFromAnyIpv4 (tcp 22) ''Allow ssh'' (connections cl0)\<rparr>;
          cl = cl\<lparr>connections :=
                    allowFromAnyIpv4 (tcp 25565) ''Allow minecraft connections'' (connections cl)\<rparr>;
          cl = cl\<lparr>connections := allowFromAnyIpv4 icmpPing ''Allow ping'' (connections cl)\<rparr>;
          fs = \<lparr>fsVpc = v, lifecyclePolicy = ''AFTER_7_DAYS'',
                fsConnections =
                  [\<lparr>peer = clusterPeer (clusterName cl), port = tcp 2049, description = None\<rparr>]\<rparr>;
          ch = ch0 @ [''MinecraftFileSystem''];
          (bp, ch) =
            (case backup props of
               Some r \<Rightarrow>
                 (Some \<lparr>backupPlanName = ''Minecraft backup'', backupPlanRules = [r],
                        selections = [[''MinecraftFileSystem'']]\<rparr>,
                  ch @ [''BackupPlan''])
             | None \<Rightarrow> (None, ch));
          td = \<lparr>volumes = [(''minecraft'', ''MinecraftFileSystem'')],
                dependencies = [''MinecraftFileSystem''],
                containers = []\<rparr>;
          ch = ch @ [''MinecraftServerDefinition''];
          (pl, ch) =
            (case plugins props of
               Some p \<Rightarrow>
                 if p \<noteq> []
                 then (Some \<lparr>assetPath = p, readers = [''taskRole''], publicAccess = True\<rparr>,
                       ch @ [''ModpackAsset''])
                 else (None, ch)
             | None \<Rightarrow> (None, ch));
          (rs, cl, ch) =
            (if rcon props = Some True
             then (Some \<lparr>secretDescription = ''Secret for minecraft rcon'',
                         excludePunctuation = True\<rparr>,
                   cl\<lparr>connections :=
                        allowFromAnyIpv4 (tcp 25575) ''Allow rcon connections'' (connections cl)\<rparr>,
                   ch @ [''RconSecret''])
             else (None, cl, ch));
          td = td\<lparr>containers := [''Minecraft'']\<rparr>;
          container =
            \<lparr>image = ''itzg/minecraft-server:''
                       @ (case imageTag props of Some t \<Rightarrow> t | None \<Rightarrow> ''latest''),
             environment = makeEnv pl rs (serverOptions props),
             secrets = makeSecret rs,
             memoryReservationMiB =
               (case memoryReservation props of Some m \<Rightarrow> m | None \<Rightarrow> 1024),
             mountPoints = [],
             portMappings = []\<rparr>;
          container = container\<lparr>mountPoints :=
                        [\<lparr>containerPath = ''/data'', readOnly = False,
                          sourceVolume = ''minecraft''\<rparr>]\<rparr>;
          container = container\<lparr>portMappings :=
                        portMappings container @ [\<lparr>containerPort = 25565, hostPort = 25565\<rparr>]\<rparr>;
          container =
            (if rcon props = Some True
             then container\<lparr>portMappings :=
                    portMappings container @ [\<lparr>containerPort = 25575, hostPort = 25575\<rparr>]\<rparr>
             else container);
          svc = \<lparr>serviceCluster = cl, minHealthyPercent = 0, maxHealthyPercent = 100\<rparr>;
          ch = ch @ [''MinecraftServer'']
      in \<lparr>this_cluster = cl,
          this_vpc = v,
          this_autoScaling = autoScaling,
          this_plugins = pl,
          this_rconSecret = rs,
          fileSystem = fs,
          backupPlan = bp,
          taskDefinition = td,
          minecraftContainer = container,
          service = svc,
          ruleFunction = None,
          domainRule = None,
          children = ch\<rparr>)"

text \<open>
  The method \<^verbatim>\<open>customDomain(props)\<close>. The event pattern reads
  \<^verbatim>\<open>this.autoScaling.autoScalingGroupName\<close> before the rule is made, which throws when
  \<^verbatim>\<open>this.autoScaling\<close> is undefined.
\<close>

definition this_customDomain :: "MinecraftCdkStack \<Rightarrow> CustomDomainProps \<Rightarrow> MinecraftCdkStack build" where
  "this_customDomain this props =
     (let hostedZone = hostedZoneId props;
          ch = children this @ [''HostedZone''];
          fn = \<lparr>functionEnvironment =
                  [''HOSTED_ZONE_ID'' \<mapsto> hostedZone, ''DOMAIN_NAME'' \<mapsto> domainName props],
                initialPolicy =
                  [\<lparr>actions = [''route53:ChangeResourceRecordSets''],
                    resources = [hostedZoneArn hostedZone]\<rparr>,
                   \<lparr>actions = [''ec2:DescribeInstances''],
                    resources = [''*'']\<rparr>]\<rparr>;
          ch = ch @ [''RuleFunction'']
      in case this_autoScaling this of
           None \<Rightarrow>
             Inl (TypeError ''Cannot read property autoScalingGroupName of undefined'', ch)
         | Some asg \<Rightarrow>
             Inr (this\<lparr>ruleFunction := Some fn,
                       domainRule :=
                         Some \<lparr>targets = [''RuleFunction''],
                               eventSource = [''aws.autoscaling''],
                               detailType = [''EC2 Instance Launch Successful''],
                               detailAutoScalingGroupName = [autoScalingGroupName asg]\<rparr>,
                       children := ch @ [''DomainRule'']\<rparr>))"

text \<open>
  The constructor. \<^verbatim>\<open>props.cluster\<close> and \<^verbatim>\<open>props.clusterOptions\<close> are objects, truthy
  exactly when they are given.
\<close>

definition MinecraftCdkStack_new :: "MinecraftCdkStackProps \<Rightarrow> MinecraftCdkStack build" where
  "MinecraftCdkStack_new props =
     (if (cluster props = None \<and> clusterOptions props = None)
         \<or> (cluster props \<noteq> None \<and> clusterOptions props \<noteq> None)
      then Inl (ConfigurationError ''exactly one of cluster or clusterOptions must be provided'', [])
      else case resolveCluster props of
             Inl e \<Rightarrow> Inl e
           | Inr (cl, v, ch) \<Rightarrow>
              (let this = assemble props cl v ch
               in case customDomain props of
                    Some cd \<Rightarrow> this_customDomain this cd
                  | None \<Rightarrow> Inr this))"

section \<open>Reference definitions and sample configurations\<close>

text \<open>
  The elements of a list joined with commas, as the specification words it: in the order
  of the list, a comma between two neighbours and none after the last element.
\<close>

fun comma_joined :: "string list \<Rightarrow> string" where
  "comma_joined [] = []"
| "comma_joined [x] = x"
| "comma_joined (x # y # ys) = x @ '','' @ comma_joined (y # ys)"

text \<open>The rules of lines 100 to 102 and the rule of line 146.\<close>

definition baselineRules :: "IngressRule list" where
  "baselineRules =
     [\<lparr>peer = anyIpv4, port = tcp 22, description = Some ''Allow ssh''\<rparr>,
      \<lparr>peer = anyIpv4, port = tcp 25565, description = Some ''Allow minecraft connections''\<rparr>,
      \<lparr>peer = anyIpv4, port = icmpPing, description = Some ''Allow ping''\<rparr>]"

definition rconRule :: IngressRule where
  "rconRule = \<lparr>peer = anyIpv4, port = tcp 25575, description = Some ''Allow rcon connections''\<rparr>"

definition rconSecret_new :: SecretsManagerSecret where
  "rconSecret_new = \<lparr>secretDescription = ''Secret for minecraft rcon'', excludePunctuation = True\<rparr>"

text \<open>A configuration that provisions a new cluster and sets nothing else.\<close>

definition provision_props :: MinecraftCdkStackProps where
  "provision_props =
     \<lparr>imageTag = None, cluster = None,
      clusterOptions =
        Some \<lparr>instanceType = ''t3.medium'', keyName = None, spotPrice = None, vpc = None\<rparr>,
      serverOptions = None, plugins = None, backup = None, rcon = None,
      memoryReservation = None, customDomain = None\<rparr>"

text \<open>A cluster of the caller with compute capacity whose capacity group holds 2 to 5 hosts.\<close>

definition fleet_cluster :: ICluster where
  "fleet_cluster =
     \<lparr>clusterName = ''Fleet'', clusterVpc = ImportedVpc ''vpc-1'', hasEc2Capacity = True,
      autoscalingGroup =
        Some \<lparr>autoScalingGroupName = ''FleetGroup'', asgInstanceType = ''t3.medium'',
              asgSpotPrice = None, asgKeyName = None, minCapacity = 2, maxCapacity = 5\<rparr>,
      connections = []\<rparr>"

text \<open>
  A cluster of the caller that reports compute capacity and exposes no capacity group, as
  a cluster imported by its attributes does when the group is not named.
\<close>

definition imported_cluster :: ICluster where
  "imported_cluster =
     \<lparr>clusterName = ''Imported'', clusterVpc = ImportedVpc ''vpc-1'', hasEc2Capacity = True,
      autoscalingGroup = None, connections = []\<rparr>"

text \<open>A cluster of the caller without compute capacity.\<close>

definition fargate_cluster :: ICluster where
  "fargate_cluster =
     \<lparr>clusterName = ''Fargate'', clusterVpc = ImportedVpc ''vpc-1'', hasEc2Capacity = False,
      autoscalingGroup = None, connections = []\<rparr>"

definition adopt_props :: "ICluster \<Rightarrow> MinecraftCdkStackProps" where
  "adopt_props c = provision_props\<lparr>cluster := Some c, clusterOptions := None\<rparr>"

definition sample_domain :: CustomDomainProps where
  "sample_domain = \<lparr>hostedZoneId = ''Z123'', domainName = ''mc.example.com''\<rparr>"

definition sample_options :: MinecraftServerOptions where
  "sample_options =
     \<lparr>version = None, ops = Some [''a'', ''b'', ''c''], difficulty = None, mods = None,
      motd = None\<rparr>"

text \<open>Server options whose operator list is given and empty.\<close>

definition empty_ops_options :: MinecraftServerOptions where
  "empty_ops_options =
     \<lparr>version = None, ops = Some [], difficulty = None, mods = None, motd = None\<rparr>"

text \<open>A new cluster with the remote console, and no server options.\<close>

definition rcon_props :: MinecraftCdkStackProps where
  "rcon_props = provision_props\<lparr>rcon := Some True\<rparr>"

text \<open>A new cluster with a custom domain.\<close>

definition domain_props :: MinecraftCdkStackProps where
  "domain_props = provision_props\<lparr>customDomain := Some sample_domain\<rparr>"

text \<open>The cluster without a capacity group, adopted, with a custom domain.\<close>

definition imported_domain_props :: MinecraftCdkStackProps where
  "imported_domain_props = (adopt_props imported_cluster)\<lparr>customDomain := Some sample_domain\<rparr>"

section \<open>Properties of the environment\<close>

lemma join_loop_append: "join_loop sep xs (Suc k) R = R @ concat (map (\<lambda>x. sep @ x) xs)"
  by (induction xs arbitrary: k R) simp_all

lemma comma_joined_Cons: "comma_joined (x # xs) = x @ concat (map (\<lambda>y. '','' @ y) xs)"
  by (induction xs arbitrary: x) simp_all

lemma join_comma_joined: "join xs '','' = comma_joined xs"
proof (cases xs)
  case Nil
  then show ?thesis by (simp add: join_def)
next
  case (Cons x ys)
  then show ?thesis
    by (simp add: join_def join_loop_append comma_joined_Cons)
qed

lemma length_comma_joined:
  "xs \<noteq> [] \<Longrightarrow> length (comma_joined xs) = sum_list (map length xs) + (length xs - 1)"
  by (induction xs rule: comma_joined.induct) simp_all

text \<open>Looking a key up in a map that one conditional assignment has extended.\<close>

lemma case_upd_apply:
  "(case x of None \<Rightarrow> env | Some v \<Rightarrow> env(k \<mapsto> f v)) k' =
     (if k' = k then (case x of None \<Rightarrow> env k | Some v \<Rightarrow> Some (f v)) else env k')"
  by (cases x) simp_all

lemma case_if_upd_apply:
  "(case x of None \<Rightarrow> env | Some v \<Rightarrow> if c v then env(k \<mapsto> f v) else env) k' =
     (if k' = k then (case x of None \<Rightarrow> env k | Some v \<Rightarrow> if c v then Some (f v) else env k)
      else env k')"
  by (cases x) simp_all

lemmas makeEnv_lookup = makeEnv_def Let_def case_upd_apply case_if_upd_apply

lemma makeEnv_baseline:
  "makeEnv pl rs so ''EULA'' = Some ''true''
   \<and> makeEnv pl rs so ''TYPE'' = Some ''PAPER''
   \<and> makeEnv pl rs so ''OVERRIDE_SERVER_PROPERTIES'' = Some ''true''
   \<and> makeEnv pl rs so ''FORCE_REDOWNLOAD'' = Some ''true''"
  by (cases so) (simp_all add: makeEnv_lookup)

lemma makeEnv_OPS: "makeEnv pl rs (Some p) ''OPS'' = map_option comma_joined (ops p)"
  by (simp add: makeEnv_lookup join_comma_joined split: option.split)

lemma makeEnv_MODS: "makeEnv pl rs (Some p) ''MODS'' = map_option comma_joined (mods p)"
  by (simp add: makeEnv_lookup join_comma_joined split: option.split)

lemma makeEnv_None_lists:
  "makeEnv pl rs None ''OPS'' = None \<and> makeEnv pl rs None ''MODS'' = None"
  by (simp add: makeEnv_def)

lemma makeEnv_ENABLE_RCON:
  "makeEnv pl rs so ''ENABLE_RCON'' = (if so \<noteq> None \<and> rs \<noteq> None then Some ''true'' else None)"
  by (cases so) (simp_all add: makeEnv_lookup split: option.split)

lemma makeSecret_eq:
  "makeSecret rs = (case rs of Some s \<Rightarrow> [''RCON_PASSWORD'' \<mapsto> fromSecretsManager s] | None \<Rightarrow> Map.empty)"
  by (simp add: makeSecret_def)

section \<open>Properties of the constructor\<close>

lemma assemble_autoScaling: "this_autoScaling (assemble props cl v ch) = autoscalingGroup cl"
  by (simp add: assemble_def Let_def split_beta)

lemma assemble_cluster_asg:
  "autoscalingGroup (this_cluster (assemble props cl v ch)) = autoscalingGroup cl"
  by (simp add: assemble_def Let_def split_beta)

lemma assemble_connections:
  "connections (this_cluster (assemble props cl v ch)) =
     connections cl @ baselineRules @ (if rcon props = Some True then [rconRule] else [])"
  by (simp add: assemble_def Let_def split_beta allowFromAnyIpv4_def baselineRules_def rconRule_def)

lemma assemble_rconSecret:
  "this_rconSecret (assemble props cl v ch) =
     (if rcon props = Some True then Some rconSecret_new else None)"
  by (simp add: assemble_def Let_def split_beta rconSecret_new_def)

lemma assemble_environment:
  "environment (minecraftContainer (assemble props cl v ch)) =
     makeEnv (this_plugins (assemble props cl v ch)) (this_rconSecret (assemble props cl v ch))
       (serverOptions props)"
  by (simp add: assemble_def Let_def split_beta)

lemma assemble_secrets:
  "secrets (minecraftContainer (assemble props cl v ch)) =
     makeSecret (this_rconSecret (assemble props cl v ch))"
  by (simp add: assemble_def Let_def split_beta)

lemma assemble_ruleFunction:
  "ruleFunction (assemble props cl v ch) = None \<and> domainRule (assemble props cl v ch) = None"
  by (simp add: assemble_def Let_def split_beta)

lemma assemble_children:
  "children (assemble props cl v ch) =
     ch @ [''MinecraftFileSystem'']
        @ (if backup props = None then [] else [''BackupPlan''])
        @ [''MinecraftServerDefinition'']
        @ (if plugins props = None \<or> plugins props = Some [] then [] else [''ModpackAsset''])
        @ (if rcon props = Some True then [''RconSecret''] else [])
        @ [''MinecraftServer'']"
  by (simp add: assemble_def Let_def split_beta split: option.split)

lemma resolveCluster_adopt:
  "cluster props = Some c \<Longrightarrow>
     resolveCluster props =
       (if hasEc2Capacity c then Inr (c, clusterVpc c, [])
        else Inl (ConfigurationError ''cluster must have ec2 capacity'', []))"
  by (simp add: resolveCluster_def)

lemma resolveCluster_provision:
  "cluster props = None \<Longrightarrow> clusterOptions props = Some co \<Longrightarrow>
     \<exists>v ch. resolveCluster props =
       Inr (Cluster_new ''Cluster'' v
              \<lparr>capInstanceType = instanceType co, capSpotPrice = spotPrice co,
               capKeyName = keyName co, capMinCapacity = 0, capMaxCapacity = 1\<rparr>, v, ch)"
  by (simp add: resolveCluster_def Let_def split: option.split)

lemma this_customDomain_Inr:
  "this_customDomain this cd = Inr s \<Longrightarrow>
     this_autoScaling this \<noteq> None
     \<and> this_cluster s = this_cluster this
     \<and> minecraftContainer s = minecraftContainer this
     \<and> this_rconSecret s = this_rconSecret this
     \<and> this_plugins s = this_plugins this
     \<and> (\<exists>f. ruleFunction s = Some f
            \<and> initialPolicy f =
                 [\<lparr>actions = [''route53:ChangeResourceRecordSets''],
                   resources = [hostedZoneArn (hostedZoneId cd)]\<rparr>,
                  \<lparr>actions = [''ec2:DescribeInstances''], resources = [''*'']\<rparr>])"
  by (auto simp: this_customDomain_def Let_def split: option.splits)

lemma this_customDomain_Some:
  "this_autoScaling this = Some asg \<Longrightarrow> \<exists>s. this_customDomain this cd = Inr s"
  by (simp add: this_customDomain_def Let_def)

lemma new_Inr_cases:
  "MinecraftCdkStack_new props = Inr s \<Longrightarrow>
     \<exists>cl v ch. resolveCluster props = Inr (cl, v, ch)
       \<and> (cluster props = None) \<noteq> (clusterOptions props = None)
       \<and> (case customDomain props of
             None \<Rightarrow> s = assemble props cl v ch
           | Some cd \<Rightarrow> this_customDomain (assemble props cl v ch) cd = Inr s)"
  by (auto simp: MinecraftCdkStack_new_def Let_def split: if_splits sum.splits option.splits)

lemma new_Inr_fields:
  assumes "MinecraftCdkStack_new props = Inr s"
  shows "\<exists>cl v ch. resolveCluster props = Inr (cl, v, ch)
           \<and> this_cluster s = this_cluster (assemble props cl v ch)
           \<and> minecraftContainer s = minecraftContainer (assemble props cl v ch)
           \<and> this_rconSecret s = this_rconSecret (assemble props cl v ch)
           \<and> this_plugins s = this_plugins (assemble props cl v ch)"
proof -
  from new_Inr_cases [OF assms] obtain cl v ch where
    r: "resolveCluster props = Inr (cl, v, ch)" and
    c: "case customDomain props of
          None \<Rightarrow> s = assemble props cl v ch
        | Some cd \<Rightarrow> this_customDomain (assemble props cl v ch) cd = Inr s"
    by blast
  show ?thesis
  proof (cases "customDomain props")
    case None
    with r c show ?thesis by simp
  next
    case (Some cd)
    with c have "this_customDomain (assemble props cl v ch) cd = Inr s" by simp
    from this_customDomain_Inr [OF this] r show ?thesis by simp
  qed
qed

text \<open>The constructor at the sample configurations.\<close>

lemma new_adopt:
  "MinecraftCdkStack_new (adopt_props c) =
     (if hasEc2Capacity c then Inr (assemble (adopt_props c) c (clusterVpc c) [])
      else Inl (ConfigurationError ''cluster must have ec2 capacity'', []))"
  by (simp add: MinecraftCdkStack_new_def resolveCluster_def adopt_props_def provision_props_def)

lemma new_provision:
  "MinecraftCdkStack_new provision_props =
     Inr (assemble provision_props
            (Cluster_new ''Cluster''
               (Vpc_new ''Vpc'' 2 [\<lparr>subnetType = PUBLIC, subnetName = ''Public'', cidrMask = 26\<rparr>])
               \<lparr>capInstanceType = ''t3.medium'', capSpotPrice = None, capKeyName = None,
                capMinCapacity = 0, capMaxCapacity = 1\<rparr>)
            (Vpc_new ''Vpc'' 2 [\<lparr>subnetType = PUBLIC, subnetName = ''Public'', cidrMask = 26\<rparr>])
            [''Vpc'', ''Cluster''])"
  by (simp add: MinecraftCdkStack_new_def resolveCluster_def provision_props_def)

lemma new_rcon:
  "MinecraftCdkStack_new rcon_props =
     Inr (assemble rcon_props
            (Cluster_new ''Cluster''
               (Vpc_new ''Vpc'' 2 [\<lparr>subnetType = PUBLIC, subnetName = ''Public'', cidrMask = 26\<rparr>])
               \<lparr>capInstanceType = ''t3.medium'', capSpotPrice = None, capKeyName = None,
                capMinCapacity = 0, capMaxCapacity = 1\<rparr>)
            (Vpc_new ''Vpc'' 2 [\<lparr>subnetType = PUBLIC, subnetName = ''Public'', cidrMask = 26\<rparr>])
            [''Vpc'', ''Cluster''])"
  by (simp add: MinecraftCdkStack_new_def resolveCluster_def rcon_props_def provision_props_def)

lemma new_domain_isr: "\<not> isl (MinecraftCdkStack_new domain_props)"
  by (simp add: MinecraftCdkStack_new_def resolveCluster_def this_customDomain_def Let_def
        assemble_autoScaling Cluster_new_def domain_props_def provision_props_def)

text \<open>
  What the remote console leaves in the container of a stack that was built: the flag of
  the environment needs the server options as well, the secret does not.
\<close>

lemma rcon_container:
  assumes "MinecraftCdkStack_new props = Inr s"
  shows "environment (minecraftContainer s) ''ENABLE_RCON'' =
           (if rcon props = Some True \<and> serverOptions props \<noteq> None then Some ''true'' else None)
         \<and> secrets (minecraftContainer s) =
           (if rcon props = Some True then [''RCON_PASSWORD'' \<mapsto> fromSecretsManager rconSecret_new]
            else Map.empty)"
proof -
  from new_Inr_fields [OF assms] obtain cl v ch where
    "minecraftContainer s = minecraftContainer (assemble props cl v ch)" by blast
  then show ?thesis
    by (simp add: assemble_environment assemble_secrets assemble_rconSecret makeEnv_ENABLE_RCON
          makeSecret_eq)
qed

section \<open>The claims\<close>

text \<open>
  Claim C1. When \<^verbatim>\<open>cluster\<close> and \<^verbatim>\<open>clusterOptions\<close> are both given or both absent, the
  constructor throws its configuration error, and it does so before any construct is made:
  the list of constructs made is empty.
\<close>

theorem C1_exactly_one_cluster_option:
  "(cluster props = None) = (clusterOptions props = None) \<Longrightarrow>
     MinecraftCdkStack_new props =
       Inl (ConfigurationError ''exactly one of cluster or clusterOptions must be provided'', [])"
  by (auto simp: MinecraftCdkStack_new_def)

text \<open>Both failing shapes, neither option and both options, at sample configurations.\<close>

theorem C1_exactly_one_cluster_option_witness:
  "((cluster (provision_props\<lparr>clusterOptions := None\<rparr>) = None)
      = (clusterOptions (provision_props\<lparr>clusterOptions := None\<rparr>) = None))
   \<and> MinecraftCdkStack_new (provision_props\<lparr>clusterOptions := None\<rparr>) =
       Inl (ConfigurationError ''exactly one of cluster or clusterOptions must be provided'', [])
   \<and> ((cluster (provision_props\<lparr>cluster := Some fleet_cluster\<rparr>) = None)
      = (clusterOptions (provision_props\<lparr>cluster := Some fleet_cluster\<rparr>) = None))
   \<and> MinecraftCdkStack_new (provision_props\<lparr>cluster := Some fleet_cluster\<rparr>) =
       Inl (ConfigurationError ''exactly one of cluster or clusterOptions must be provided'', [])"
  using C1_exactly_one_cluster_option [of "provision_props\<lparr>clusterOptions := None\<rparr>"]
        C1_exactly_one_cluster_option [of "provision_props\<lparr>cluster := Some fleet_cluster\<rparr>"]
  by (simp add: provision_props_def)

text \<open>
  Claim C2. When \<^verbatim>\<open>cluster\<close> is given and has no compute capacity, the constructor throws
  a configuration error before any construct is made. The message is that of the capacity
  check, unless \<^verbatim>\<open>clusterOptions\<close> is given too and the first check throws.
\<close>

theorem C2_cluster_without_capacity:
  "cluster props = Some c \<Longrightarrow> \<not> hasEc2Capacity c \<Longrightarrow>
     MinecraftCdkStack_new props =
       Inl (ConfigurationError
              (if clusterOptions props = None then ''cluster must have ec2 capacity''
               else ''exactly one of cluster or clusterOptions must be provided''), [])"
  by (auto simp: MinecraftCdkStack_new_def resolveCluster_adopt)

text \<open>A cluster without compute capacity, adopted.\<close>

theorem C2_cluster_without_capacity_witness:
  "cluster (adopt_props fargate_cluster) = Some fargate_cluster
   \<and> \<not> hasEc2Capacity fargate_cluster
   \<and> MinecraftCdkStack_new (adopt_props fargate_cluster) =
       Inl (ConfigurationError ''cluster must have ec2 capacity'', [])"
  using C2_cluster_without_capacity [of "adopt_props fargate_cluster" fargate_cluster]
  by (simp add: adopt_props_def provision_props_def fargate_cluster_def)

text \<open>
  Claim C3 as stated fails in the adopting branch: a cluster of the caller whose capacity
  group holds 2 to 5 hosts is adopted, and the cluster of the stack keeps these bounds.
\<close>

theorem C3_adopted_bounds_counterexample:
  "\<not> isl (MinecraftCdkStack_new (adopt_props fleet_cluster))
   \<and> map_option minCapacity
       (autoscalingGroup (this_cluster (projr (MinecraftCdkStack_new (adopt_props fleet_cluster)))))
     = Some 2
   \<and> map_option maxCapacity
       (autoscalingGroup (this_cluster (projr (MinecraftCdkStack_new (adopt_props fleet_cluster)))))
     = Some 5"
  by (simp add: new_adopt assemble_cluster_asg) (simp add: fleet_cluster_def)

text \<open>
  Claim C3, amended. A configuration that provisions a new cluster always builds, and the
  capacity group of its cluster has minimum 0 and maximum 1. A configuration that adopts a
  cluster, when it builds, uses the capacity group of the supplied cluster as it is.
\<close>

theorem C3_capacity_bounds:
  "(cluster props = None \<and> clusterOptions props \<noteq> None \<longrightarrow>
      (\<exists>s. MinecraftCdkStack_new props = Inr s
          \<and> map_option minCapacity (autoscalingGroup (this_cluster s)) = Some 0
          \<and> map_option maxCapacity (autoscalingGroup (this_cluster s)) = Some 1))
   \<and> (\<forall>c s. cluster props = Some c \<and> MinecraftCdkStack_new props = Inr s \<longrightarrow>
         autoscalingGroup (this_cluster s) = autoscalingGroup c)"
proof (intro conjI impI allI)
  assume a: "cluster props = None \<and> clusterOptions props \<noteq> None"
  then obtain co where co: "clusterOptions props = Some co" by auto
  from resolveCluster_provision [OF conjunct1 [OF a] co] obtain v ch where
    r: "resolveCluster props =
          Inr (Cluster_new ''Cluster'' v
                 \<lparr>capInstanceType = instanceType co, capSpotPrice = spotPrice co,
                  capKeyName = keyName co, capMinCapacity = 0, capMaxCapacity = 1\<rparr>, v, ch)"
    by blast
  let ?cl = "Cluster_new ''Cluster'' v
                 \<lparr>capInstanceType = instanceType co, capSpotPrice = spotPrice co,
                  capKeyName = keyName co, capMinCapacity = 0, capMaxCapacity = 1\<rparr>"
  let ?st = "assemble props ?cl v ch"
  have asg: "autoscalingGroup ?cl \<noteq> None" by (simp add: Cluster_new_def)
  have bounds: "map_option minCapacity (autoscalingGroup ?cl) = Some 0
                \<and> map_option maxCapacity (autoscalingGroup ?cl) = Some 1"
    by (simp add: Cluster_new_def addCapacity_def)
  show "\<exists>s. MinecraftCdkStack_new props = Inr s
          \<and> map_option minCapacity (autoscalingGroup (this_cluster s)) = Some 0
          \<and> map_option maxCapacity (autoscalingGroup (this_cluster s)) = Some 1"
  proof (cases "customDomain props")
    case None
    with a r have "MinecraftCdkStack_new props = Inr ?st"
      by (simp add: MinecraftCdkStack_new_def)
    with bounds show ?thesis by (simp add: assemble_cluster_asg)
  next
    case (Some cd)
    from asg obtain g where "this_autoScaling ?st = Some g"
      by (auto simp: assemble_autoScaling)
    from this_customDomain_Some [OF this] obtain s where
      s: "this_customDomain ?st cd = Inr s" by blast
    with a r Some have n: "MinecraftCdkStack_new props = Inr s"
      by (simp add: MinecraftCdkStack_new_def)
    from this_customDomain_Inr [OF s] have "this_cluster s = this_cluster ?st" by simp
    with n bounds show ?thesis by (simp add: assemble_cluster_asg)
  qed
next
  fix c s
  assume a: "cluster props = Some c \<and> MinecraftCdkStack_new props = Inr s"
  from new_Inr_fields [of props s] a obtain cl v ch where
    r: "resolveCluster props = Inr (cl, v, ch)" and
    t: "this_cluster s = this_cluster (assemble props cl v ch)" by blast
  from a r have "cl = c" by (simp add: resolveCluster_adopt split: if_splits)
  with t show "autoscalingGroup (this_cluster s) = autoscalingGroup c"
    by (simp add: assemble_cluster_asg)
qed

text \<open>Both branches at sample configurations.\<close>

theorem C3_capacity_bounds_witness:
  "cluster provision_props = None \<and> clusterOptions provision_props \<noteq> None
   \<and> (\<exists>s. MinecraftCdkStack_new provision_props = Inr s
          \<and> map_option minCapacity (autoscalingGroup (this_cluster s)) = Some 0
          \<and> map_option maxCapacity (autoscalingGroup (this_cluster s)) = Some 1)
   \<and> cluster (adopt_props fleet_cluster) = Some fleet_cluster
   \<and> \<not> isl (MinecraftCdkStack_new (adopt_props fleet_cluster))
   \<and> autoscalingGroup (this_cluster (projr (MinecraftCdkStack_new (adopt_props fleet_cluster))))
       = autoscalingGroup fleet_cluster"
proof -
  have p: "cluster provision_props = None \<and> clusterOptions provision_props \<noteq> None"
    by (simp add: provision_props_def)
  have c: "cluster (adopt_props fleet_cluster) = Some fleet_cluster"
    by (simp add: adopt_props_def)
  have n: "MinecraftCdkStack_new (adopt_props fleet_cluster)
             = Inr (projr (MinecraftCdkStack_new (adopt_props fleet_cluster)))"
    by (simp add: new_adopt fleet_cluster_def)
  from C3_capacity_bounds [of provision_props] p
       C3_capacity_bounds [of "adopt_props fleet_cluster"] c n
  show ?thesis by (metis sum.disc(2))
qed

text \<open>
  Claim C4 as stated fails for a list that is given and empty: an array is truthy, so the
  variable is set, to the empty string.
\<close>

theorem C4_empty_list_counterexample:
  "ops empty_ops_options = Some []
   \<and> makeEnv None None (Some empty_ops_options) ''OPS'' = Some []"
  by (simp add: makeEnv_OPS) (simp add: empty_ops_options_def)

text \<open>
  Claim C4, amended. For server options that are given, the environment has the operators
  variable exactly when the operator list is given, and the mods variable exactly when the
  mod list is given, each bound to the elements joined with commas. A list that is absent
  yields no key; a list that is given and empty yields the key bound to the empty string.
\<close>

theorem C4_list_variables:
  "(makeEnv pl rs (Some p) ''OPS'' \<noteq> None) = (ops p \<noteq> None)
   \<and> (makeEnv pl rs (Some p) ''MODS'' \<noteq> None) = (mods p \<noteq> None)
   \<and> makeEnv pl rs (Some p) ''OPS'' = map_option comma_joined (ops p)
   \<and> makeEnv pl rs (Some p) ''MODS'' = map_option comma_joined (mods p)
   \<and> (ops p = Some [] \<longrightarrow> makeEnv pl rs (Some p) ''OPS'' = Some [])
   \<and> (mods p = Some [] \<longrightarrow> makeEnv pl rs (Some p) ''MODS'' = Some [])"
  by (simp add: makeEnv_OPS makeEnv_MODS)

text \<open>Options with an operator list and no mod list, and options with both lists empty.\<close>

theorem C4_list_variables_witness:
  "makeEnv None None (Some sample_options) ''OPS'' = Some ''a,b,c''
   \<and> makeEnv None None (Some sample_options) ''MODS'' = None
   \<and> ops (sample_options\<lparr>ops := Some [], mods := Some []\<rparr>) = Some []
   \<and> mods (sample_options\<lparr>ops := Some [], mods := Some []\<rparr>) = Some []
   \<and> makeEnv None None (Some (sample_options\<lparr>ops := Some [], mods := Some []\<rparr>)) ''OPS'' = Some []
   \<and> makeEnv None None (Some (sample_options\<lparr>ops := Some [], mods := Some []\<rparr>)) ''MODS'' = Some []"
  using C4_list_variables [of None None sample_options]
        C4_list_variables [of None None "sample_options\<lparr>ops := Some [], mods := Some []\<rparr>"]
  by (simp add: sample_options_def)

text \<open>
  Claim C5 at a configuration with the remote console and no server options. The stack is
  built, the secret is bound and the ingress rule for port 25575 is attached, and the
  environment has no remote-console flag: \<^verbatim>\<open>makeEnv\<close> has returned before the line that
  sets it.
\<close>

theorem C5_rcon_without_server_options:
  "rcon rcon_props = Some True \<and> serverOptions rcon_props = None
   \<and> \<not> isl (MinecraftCdkStack_new rcon_props)
   \<and> environment (minecraftContainer (projr (MinecraftCdkStack_new rcon_props))) ''ENABLE_RCON''
       = None
   \<and> secrets (minecraftContainer (projr (MinecraftCdkStack_new rcon_props))) ''RCON_PASSWORD''
       = Some (fromSecretsManager rconSecret_new)
   \<and> rconRule \<in> set (connections (this_cluster (projr (MinecraftCdkStack_new rcon_props))))"
proof -
  have r: "rcon rcon_props = Some True \<and> serverOptions rcon_props = None"
    by (simp add: rcon_props_def provision_props_def)
  then show ?thesis
    by (simp add: new_rcon assemble_environment assemble_secrets assemble_connections
          assemble_rconSecret makeEnv_ENABLE_RCON makeSecret_eq)
qed

text \<open>
  Claim C6. Whatever the server options are, given or absent, and whatever the plugin asset
  and the secret are, the environment has the four fixed entries; so has the container of
  every stack that is built.
\<close>

theorem C6_baseline_environment:
  "makeEnv pl rs so ''EULA'' = Some ''true''
   \<and> makeEnv pl rs so ''TYPE'' = Some ''PAPER''
   \<and> makeEnv pl rs so ''OVERRIDE_SERVER_PROPERTIES'' = Some ''true''
   \<and> makeEnv pl rs so ''FORCE_REDOWNLOAD'' = Some ''true''
   \<and> (\<forall>s. MinecraftCdkStack_new props = Inr s \<longrightarrow>
         environment (minecraftContainer s) ''EULA'' = Some ''true''
         \<and> environment (minecraftContainer s) ''TYPE'' = Some ''PAPER''
         \<and> environment (minecraftContainer s) ''OVERRIDE_SERVER_PROPERTIES'' = Some ''true''
         \<and> environment (minecraftContainer s) ''FORCE_REDOWNLOAD'' = Some ''true'')"
proof (intro conjI allI impI)
  fix s
  assume "MinecraftCdkStack_new props = Inr s"
  from new_Inr_fields [OF this] obtain cl v ch where
    "minecraftContainer s = minecraftContainer (assemble props cl v ch)" by blast
  then have e: "environment (minecraftContainer s) =
      makeEnv (this_plugins (assemble props cl v ch)) (this_rconSecret (assemble props cl v ch))
        (serverOptions props)"
    by (simp add: assemble_environment)
  show "environment (minecraftContainer s) ''EULA'' = Some ''true''"
    and "environment (minecraftContainer s) ''TYPE'' = Some ''PAPER''"
    and "environment (minecraftContainer s) ''OVERRIDE_SERVER_PROPERTIES'' = Some ''true''"
    and "environment (minecraftContainer s) ''FORCE_REDOWNLOAD'' = Some ''true''"
    unfolding e using makeEnv_baseline by blast+
qed (simp_all add: makeEnv_baseline)

text \<open>The four entries without server options, with them, and in a stack that is built.\<close>

theorem C6_baseline_environment_witness:
  "makeEnv None None None ''EULA'' = Some ''true''
   \<and> makeEnv None None (Some sample_options) ''TYPE'' = Some ''PAPER''
   \<and> \<not> isl (MinecraftCdkStack_new provision_props)
   \<and> environment (minecraftContainer (projr (MinecraftCdkStack_new provision_props))) ''EULA''
       = Some ''true''
   \<and> environment (minecraftContainer (projr (MinecraftCdkStack_new provision_props))) ''TYPE''
       = Some ''PAPER''
   \<and> environment (minecraftContainer (projr (MinecraftCdkStack_new provision_props)))
        ''OVERRIDE_SERVER_PROPERTIES'' = Some ''true''
   \<and> environment (minecraftContainer (projr (MinecraftCdkStack_new provision_props)))
        ''FORCE_REDOWNLOAD'' = Some ''true''"
proof -
  have n: "MinecraftCdkStack_new provision_props
             = Inr (projr (MinecraftCdkStack_new provision_props))"
    by (simp add: new_provision)
  from C6_baseline_environment [of None None None provision_props]
       C6_baseline_environment [of None None "Some sample_options" provision_props] n
  show ?thesis by (metis sum.disc(2))
qed

text \<open>
  Claim C7. In every stack that is built, with an adopted cluster or a new one, the
  connection boundary of the cluster has the three rules from any address: port 22, port
  25565 and the echo request.
\<close>

theorem C7_baseline_ingress:
  "MinecraftCdkStack_new props = Inr s \<Longrightarrow>
     \<lparr>peer = anyIpv4, port = tcp 22, description = Some ''Allow ssh''\<rparr>
        \<in> set (connections (this_cluster s))
     \<and> \<lparr>peer = anyIpv4, port = tcp 25565, description = Some ''Allow minecraft connections''\<rparr>
        \<in> set (connections (this_cluster s))
     \<and> \<lparr>peer = anyIpv4, port = icmpPing, description = Some ''Allow ping''\<rparr>
        \<in> set (connections (this_cluster s))"
proof -
  assume "MinecraftCdkStack_new props = Inr s"
  from new_Inr_fields [OF this] obtain cl v ch where
    "this_cluster s = this_cluster (assemble props cl v ch)" by blast
  then have "connections (this_cluster s) =
      connections cl @ baselineRules @ (if rcon props = Some True then [rconRule] else [])"
    by (simp add: assemble_connections)
  then show ?thesis by (simp add: baselineRules_def)
qed

text \<open>The three rules on a new cluster and on an adopted one.\<close>

theorem C7_baseline_ingress_witness:
  "\<not> isl (MinecraftCdkStack_new provision_props)
   \<and> \<lparr>peer = anyIpv4, port = tcp 22, description = Some ''Allow ssh''\<rparr>
        \<in> set (connections (this_cluster (projr (MinecraftCdkStack_new provision_props))))
   \<and> \<lparr>peer = anyIpv4, port = tcp 25565, description = Some ''Allow minecraft connections''\<rparr>
        \<in> set (connections (this_cluster (projr (MinecraftCdkStack_new provision_props))))
   \<and> \<lparr>peer = anyIpv4, port = icmpPing, description = Some ''Allow ping''\<rparr>
        \<in> set (connections (this_cluster (projr (MinecraftCdkStack_new provision_props))))
   \<and> \<not> isl (MinecraftCdkStack_new (adopt_props fleet_cluster))
   \<and> \<lparr>peer = anyIpv4, port = tcp 22, description = Some ''Allow ssh''\<rparr>
        \<in> set (connections (this_cluster (projr (MinecraftCdkStack_new (adopt_props fleet_cluster)))))
   \<and> \<lparr>peer = anyIpv4, port = tcp 25565, description = Some ''Allow minecraft connections''\<rparr>
        \<in> set (connections (this_cluster (projr (MinecraftCdkStack_new (adopt_props fleet_cluster)))))
   \<and> \<lparr>peer = anyIpv4, port = icmpPing, description = Some ''Allow ping''\<rparr>
        \<in> set (connections (this_cluster (projr (MinecraftCdkStack_new (adopt_props fleet_cluster)))))"
proof -
  have p: "MinecraftCdkStack_new provision_props
             = Inr (projr (MinecraftCdkStack_new provision_props))"
    by (simp add: new_provision)
  have a: "MinecraftCdkStack_new (adopt_props fleet_cluster)
             = Inr (projr (MinecraftCdkStack_new (adopt_props fleet_cluster)))"
    by (simp add: new_adopt fleet_cluster_def)
  from C7_baseline_ingress [OF p] C7_baseline_ingress [OF a] p a
  show ?thesis by (metis sum.disc(2))
qed

text \<open>
  Claim C8. For a non-empty operator list the operators variable is the elements joined
  with commas in the order of the list; its length is that of the elements plus one comma
  less than there are elements, so no separator trails; the list a, b, c gives a,b,c.
\<close>

theorem C8_operators_comma_joined:
  "ops p = Some xs \<Longrightarrow> xs \<noteq> [] \<Longrightarrow>
     makeEnv pl rs (Some p) ''OPS'' = Some (comma_joined xs)
     \<and> length (comma_joined xs) = sum_list (map length xs) + (length xs - 1)
     \<and> (xs = [''a'', ''b'', ''c''] \<longrightarrow> makeEnv pl rs (Some p) ''OPS'' = Some ''a,b,c'')"
  by (simp add: makeEnv_OPS length_comma_joined)

text \<open>The operator list a, b, c.\<close>

theorem C8_operators_comma_joined_witness:
  "ops sample_options = Some [''a'', ''b'', ''c''] \<and> [''a'', ''b'', ''c''] \<noteq> []
   \<and> makeEnv None None (Some sample_options) ''OPS'' = Some ''a,b,c''
   \<and> length ''a,b,c'' = 5"
  using C8_operators_comma_joined [of sample_options "[''a'', ''b'', ''c'']" None None]
  by (simp add: sample_options_def)

text \<open>
  Claim C9. With a custom domain, the function of a stack that is built has exactly two
  policy statements: the change of record sets on the hosted zone of the domain, and the
  description of instances on all resources.
\<close>

theorem C9_rule_function_permissions:
  "customDomain props = Some cd \<Longrightarrow> MinecraftCdkStack_new props = Inr s \<Longrightarrow>
     map_option initialPolicy (ruleFunction s) =
       Some [\<lparr>actions = [''route53:ChangeResourceRecordSets''],
               resources = [hostedZoneArn (hostedZoneId cd)]\<rparr>,
             \<lparr>actions = [''ec2:DescribeInstances''], resources = [''*'']\<rparr>]"
proof -
  assume cd: "customDomain props = Some cd" and n: "MinecraftCdkStack_new props = Inr s"
  from new_Inr_cases [OF n] cd obtain cl v ch where
    "this_customDomain (assemble props cl v ch) cd = Inr s" by auto
  from this_customDomain_Inr [OF this] show ?thesis by auto
qed

text \<open>A new cluster with the sample domain.\<close>

theorem C9_rule_function_permissions_witness:
  "customDomain domain_props = Some sample_domain
   \<and> \<not> isl (MinecraftCdkStack_new domain_props)
   \<and> map_option initialPolicy (ruleFunction (projr (MinecraftCdkStack_new domain_props))) =
       Some [\<lparr>actions = [''route53:ChangeResourceRecordSets''],
               resources = [''arn:aws:route53:::hostedzone/Z123'']\<rparr>,
             \<lparr>actions = [''ec2:DescribeInstances''], resources = [''*'']\<rparr>]"
proof -
  have c: "customDomain domain_props = Some sample_domain"
    by (simp add: domain_props_def)
  have n: "MinecraftCdkStack_new domain_props = Inr (projr (MinecraftCdkStack_new domain_props))"
    using new_domain_isr by (cases "MinecraftCdkStack_new domain_props") simp_all
  from C9_rule_function_permissions [OF c n] c new_domain_isr
  show ?thesis by (simp add: hostedZoneArn_def sample_domain_def)
qed

text \<open>
  Claim C10 at a cluster that reports compute capacity and exposes no capacity group. The
  capacity check passes and \<^verbatim>\<open>this.autoScaling\<close> is undefined. With a custom domain the
  constructor then throws a \<^verbatim>\<open>TypeError\<close> after five constructs have been made; without
  one the stack is built with the field undefined.
\<close>

theorem C10_imported_cluster_without_group:
  "cluster imported_domain_props = Some imported_cluster
   \<and> hasEc2Capacity imported_cluster
   \<and> autoscalingGroup imported_cluster = None
   \<and> MinecraftCdkStack_new imported_domain_props =
       Inl (TypeError ''Cannot read property autoScalingGroupName of undefined'',
            [''MinecraftFileSystem'', ''MinecraftServerDefinition'', ''MinecraftServer'',
             ''HostedZone'', ''RuleFunction''])
   \<and> \<not> isl (MinecraftCdkStack_new (adopt_props imported_cluster))
   \<and> this_autoScaling (projr (MinecraftCdkStack_new (adopt_props imported_cluster))) = None"
proof -
  have i: "hasEc2Capacity imported_cluster \<and> autoscalingGroup imported_cluster = None"
    by (simp add: imported_cluster_def)
  have p: "cluster imported_domain_props = Some imported_cluster
           \<and> clusterOptions imported_domain_props = None
           \<and> customDomain imported_domain_props = Some sample_domain
           \<and> backup imported_domain_props = None
           \<and> plugins imported_domain_props = None
           \<and> rcon imported_domain_props = None"
    by (simp add: imported_domain_props_def adopt_props_def provision_props_def)
  have "MinecraftCdkStack_new imported_domain_props =
       Inl (TypeError ''Cannot read property autoScalingGroupName of undefined'',
            [''MinecraftFileSystem'', ''MinecraftServerDefinition'', ''MinecraftServer'',
             ''HostedZone'', ''RuleFunction''])"
    using i p
    by (simp add: MinecraftCdkStack_new_def resolveCluster_adopt this_customDomain_def
          assemble_autoScaling assemble_children)
  with i p show ?thesis
    by (simp add: new_adopt assemble_autoScaling)
qed

end
